theory Spec2Isabelle
  imports Main "HOL-Library.Signed_Division"
begin

section \<open>The Go library functions the handlers call\<close>

text \<open>
  The handlers of \<^verbatim>\<open>server/handlers.go\<close> parse their parameters with
  \<^verbatim>\<open>strconv\<close> and store settings as JSON text. Go's \<^verbatim>\<open>int\<close> is taken
  as 64 bits wide (the plugin is built for 64-bit targets), so \<^verbatim>\<open>int\<close> and
  \<^verbatim>\<open>int64\<close> values are HOL integers that the parsers keep inside
  \<open>[-2^63, 2^63)\<close>. Strings are byte lists.
\<close>

subsection \<open>Decimal digits\<close>

definition isDigit :: "char \<Rightarrow> bool" where
  "isDigit c = (48 \<le> (of_char c :: nat) \<and> (of_char c :: nat) \<le> 57)"

definition digitVal :: "char \<Rightarrow> nat" where
  "digitVal c = of_char c - 48"

text \<open>The digit table of \<^verbatim>\<open>strconv\<close>.\<close>

definition digitChar :: "nat \<Rightarrow> char" where
  "digitChar d = ''0123456789'' ! d"

text \<open>The value of a digit string, as the loop \<^verbatim>\<open>n = n*10 + int(ch)\<close> computes it.\<close>

definition parseDigits :: "string \<Rightarrow> nat" where
  "parseDigits ds = foldl (\<lambda>n c. n * 10 + digitVal c) 0 ds"

text \<open>The decimal digits of a natural number, most significant first, without leading zeros.\<close>

fun formatUint :: "nat \<Rightarrow> string" where
  "formatUint n = (if n < 10 then [digitChar n] else formatUint (n div 10) @ [digitChar (n mod 10)])"

declare formatUint.simps [simp del]

subsection \<open>strconv\<close>

text \<open>
  \<^verbatim>\<open>strconv.ParseInt(s, 10, 64)\<close>: an optional sign, then one or more decimal digits,
  and the value must fit \<^verbatim>\<open>int64\<close>. The callers only test the error against
  \<^verbatim>\<open>nil\<close>, so syntax and range errors are one value.
\<close>

datatype NumError = NumError

definition maxInt64 :: int where
  "maxInt64 = 2 ^ 63 - 1"

definition minInt64 :: int where
  "minInt64 = - (2 ^ 63)"

definition strconv_ParseInt :: "string \<Rightarrow> NumError + int" where
  "strconv_ParseInt s =
     (case s of
        [] \<Rightarrow> Inl NumError
      | c # cs \<Rightarrow>
          let neg = (c = CHR ''-'');
              ds = (if c = CHR ''+'' \<or> c = CHR ''-'' then cs else s)
          in if ds = [] \<or> \<not> list_all isDigit ds then Inl NumError
             else let un = int (parseDigits ds)
                  in if \<not> neg \<and> un > maxInt64 then Inl NumError
                     else if neg \<and> - un < minInt64 then Inl NumError
                     else Inr (if neg then - un else un))"

text \<open>\<^verbatim>\<open>strconv.Atoi\<close> is \<^verbatim>\<open>ParseInt(s, 10, 0)\<close> with the 64-bit \<^verbatim>\<open>int\<close>.\<close>

definition strconv_Atoi :: "string \<Rightarrow> NumError + int" where
  "strconv_Atoi s = strconv_ParseInt s"

text \<open>\<^verbatim>\<open>strconv.Itoa\<close> / \<^verbatim>\<open>strconv.FormatInt(i, 10)\<close>.\<close>

definition strconv_Itoa :: "int \<Rightarrow> string" where
  "strconv_Itoa i = (if i < 0 then CHR ''-'' # formatUint (nat (- i)) else formatUint (nat i))"

subsection \<open>encoding/json for integers\<close>

datatype JsonError = JsonError

text \<open>\<^verbatim>\<open>json.Marshal\<close> of an \<^verbatim>\<open>int\<close> or \<^verbatim>\<open>int64\<close> writes its decimal text and cannot fail.\<close>

definition json_Marshal_int :: "int \<Rightarrow> JsonError + string" where
  "json_Marshal_int i = Inr (strconv_Itoa i)"

definition isSpace :: "char \<Rightarrow> bool" where
  "isSpace c = (c = CHR '' '' \<or> c = CHR 0x09 \<or> c = CHR 0x0A \<or> c = CHR 0x0D)"

definition trimSpace :: "string \<Rightarrow> string" where
  "trimSpace s = rev (dropWhile isSpace (rev (dropWhile isSpace s)))"

text \<open>A JSON number without fraction and exponent: \<^verbatim>\<open>-?(0|[1-9][0-9]*)\<close>.\<close>

definition validInteger :: "string \<Rightarrow> bool" where
  "validInteger s =
     (let ds = (case s of [] \<Rightarrow> [] | c # cs \<Rightarrow> if c = CHR ''-'' then cs else s)
      in ds \<noteq> [] \<and> list_all isDigit ds \<and> (hd ds \<noteq> CHR ''0'' \<or> length ds = 1))"

text \<open>
  \<^verbatim>\<open>json.Unmarshal(b, &v)\<close> for an integer variable \<open>v\<close> that holds 0: the input is
  one JSON value between optional white space; \<^verbatim>\<open>null\<close> leaves \<open>v\<close> as it is, an
  integer literal in range is stored, and every other input (no input at all, a
  fraction or exponent, another JSON type, malformed text, a literal out of range)
  is an error. \<open>None\<close> is the \<^verbatim>\<open>nil\<close> slice that \<^verbatim>\<open>KVGet\<close> returns for a missing key.
\<close>

definition json_Unmarshal_int :: "string option \<Rightarrow> JsonError + int" where
  "json_Unmarshal_int b =
     (case b of
        None \<Rightarrow> Inl JsonError
      | Some raw \<Rightarrow>
          let lit = trimSpace raw
          in if lit = ''null'' then Inr 0
             else if validInteger lit then
               (case strconv_ParseInt lit of Inl _ \<Rightarrow> Inl JsonError | Inr n \<Rightarrow> Inr n)
             else Inl JsonError)"

section \<open>The plugin API: key-value store and error log\<close>

text \<open>
  \<^verbatim>\<open>plugin.API\<close> is the host's interface. Its key-value store maps string keys to
  byte strings. A call may report an \<^verbatim>\<open>*AppError\<close>; \<open>kvFails\<close> says which calls do.
  A call that reports an error has not written. \<open>errorLog\<close> collects the messages
  passed to \<^verbatim>\<open>LogError\<close> (the logged error value itself is not kept).
\<close>

datatype kv_op = OpKVGet string | OpKVSet string | OpKVDelete string

datatype AppError = AppError

record plugin_API =
  kv :: "string \<rightharpoonup> string"
  kvFails :: "kv_op \<Rightarrow> bool"
  errorLog :: "string list"

definition KVGet :: "plugin_API \<Rightarrow> string \<Rightarrow> AppError + string option" where
  "KVGet api key = (if kvFails api (OpKVGet key) then Inl AppError else Inr (kv api key))"

definition KVSet :: "plugin_API \<Rightarrow> string \<Rightarrow> string \<Rightarrow> AppError option \<times> plugin_API" where
  "KVSet api key v =
     (if kvFails api (OpKVSet key) then (Some AppError, api)
      else (None, api\<lparr>kv := (kv api)(key \<mapsto> v)\<rparr>))"

definition KVDelete :: "plugin_API \<Rightarrow> string \<Rightarrow> AppError option \<times> plugin_API" where
  "KVDelete api key =
     (if kvFails api (OpKVDelete key) then (Some AppError, api)
      else (None, api\<lparr>kv := (kv api)(key := None)\<rparr>))"

definition LogError :: "plugin_API \<Rightarrow> string \<Rightarrow> plugin_API" where
  "LogError api msg = api\<lparr>errorLog := errorLog api @ [msg]\<rparr>"

section \<open>Constants of handlers.go\<close>

definition settingLogsLimitUnsuccessful :: string where
  "settingLogsLimitUnsuccessful = ''Setting logs limit unsuccessful.''"

definition logsLimitKey :: string where
  "logsLimitKey = ''logs-limit''"

definition settingLogsStartTimeUnsuccessful :: string where
  "settingLogsStartTimeUnsuccessful = ''Setting logs start time unsuccessful.''"

definition logsStartTimeKey :: string where
  "logsStartTimeKey = ''logs-start-time''"

definition gettingLogsUnsuccessful :: string where
  "gettingLogsUnsuccessful = ''Getting logs unsuccessful''"

definition resultTypeTextSuccess :: string where
  "resultTypeTextSuccess = ''Success''"

definition settingReportFrequencyUnsuccessful :: string where
  "settingReportFrequencyUnsuccessful = ''Setting report frequency unsuccessful.''"

definition reportFrequencyKey :: string where
  "reportFrequencyKey = ''report-frequency''"

definition settingReportChannelUnsuccessful :: string where
  "settingReportChannelUnsuccessful = ''Setting system monitoring report channel unsuccessful.''"

definition reportChannelKey :: string where
  "reportChannelKey = ''report-channel''"

definition settingChangesChannelUnsuccessful :: string where
  "settingChangesChannelUnsuccessful = ''Setting configuration changes channel unsuccessful.''"

definition changesChannelKey :: string where
  "changesChannelKey = ''changes-channel''"

section \<open>The records of the monitoring client\<close>

text \<open>
  The types of the \<^verbatim>\<open>go-nagios\<close> client, with the fields the handlers read or
  write. Both list types carry the upstream result and the records.
\<close>

record Result =
  TypeText :: string

record AlertListEntry =
  Timestamp :: int
  ObjectType :: string
  HostName :: string
  Name :: string
  Description :: string
  StateType :: string
  State :: string
  PluginOutput :: string

record AlertListData =
  AlertList :: "AlertListEntry list"

record AlertList =
  Result :: Result
  Data :: AlertListData

record NotificationListEntry =
  Timestamp :: int
  ObjectType :: string
  HostName :: string
  Name :: string
  Description :: string
  Contact :: string
  NotificationType :: string
  Method :: string
  Message :: string

record NotificationListData =
  NotificationList :: "NotificationListEntry list"

record NotificationList =
  Result :: Result
  Data :: NotificationListData

record AlertListRequest =
  Enumerate :: bool
  Count :: int
  HostName :: string
  ServiceDescription :: string
  StartTime :: int
  EndTime :: int

record NotificationListRequest =
  Enumerate :: bool
  Count :: int
  HostName :: string
  ServiceDescription :: string
  StartTime :: int
  EndTime :: int

datatype QueryError = QueryError

text \<open>
  \<^verbatim>\<open>p.client.Query(q, &v)\<close> goes to the monitoring backend: it fails or fills \<open>v\<close>.
  The client is a pair of functions, one for each request type.
\<close>

record nagios_Client =
  QueryAlerts :: "AlertListRequest \<Rightarrow> QueryError + AlertList"
  QueryNotifications :: "NotificationListRequest \<Rightarrow> QueryError + NotificationList"

section \<open>The plugin and the Go runtime\<close>

text \<open>
  A channel value is a reference into the runtime's list of channels; \<open>None\<close> is the
  \<^verbatim>\<open>nil\<close> channel, the zero value of \<^verbatim>\<open>p.subscriptionStop\<close>.
\<close>

record Plugin =
  API :: plugin_API
  client :: nagios_Client
  subscriptionStop :: "nat option"

record chan =
  capacity :: nat
  buffer :: "bool list"

text \<open>
  A time zone gives the abbreviation and the offset in force at a Unix second.
  The runtime holds the channels made so far, the goroutines started by
  \<^verbatim>\<open>go p.addMonitoringReport(channelID, stop)\<close> with their arguments, the process's
  \<^verbatim>\<open>time.Local\<close> and the wall clock that \<^verbatim>\<open>time.Now()\<close> reads (seconds and
  nanoseconds).
\<close>

type_synonym location = "int \<Rightarrow> string \<times> int"

record runtime =
  chans :: "chan list"
  goroutines :: "(string \<times> nat) list"
  time_Local :: location
  time_Now :: "int \<times> int"

text \<open>\<^verbatim>\<open>make(chan bool, n)\<close>: a new, empty channel.\<close>

definition make_chan :: "nat \<Rightarrow> runtime \<Rightarrow> nat \<times> runtime" where
  "make_chan n rt = (length (chans rt), rt\<lparr>chans := chans rt @ [\<lparr>capacity = n, buffer = []\<rparr>]\<rparr>)"

text \<open>
  \<^verbatim>\<open>ch <- v\<close> as the sending goroutine sees it: a send on the \<^verbatim>\<open>nil\<close> channel
  blocks forever; a send on a channel with room in its buffer appends and goes on;
  a send on a full buffer waits until a receiver takes a value, which no step of the
  sender does. A reference outside the list of channels does not occur in a state
  built by \<open>make_chan\<close>; it is treated as a channel without room.
\<close>

datatype send_result = Sent runtime | SendBlocksForever | SendWaits

definition chan_send :: "nat option \<Rightarrow> bool \<Rightarrow> runtime \<Rightarrow> send_result" where
  "chan_send ch v rt =
     (case ch of
        None \<Rightarrow> SendBlocksForever
      | Some c \<Rightarrow>
          if c < length (chans rt) \<and> length (buffer (chans rt ! c)) < capacity (chans rt ! c)
          then Sent (rt\<lparr>chans := (chans rt)[c := (chans rt ! c)\<lparr>buffer := buffer (chans rt ! c) @ [v]\<rparr>]\<rparr>)
          else SendWaits)"

text \<open>
  Modelled from the spec: \<^verbatim>\<open>addMonitoringReport\<close> is a method of the plugin that is
  not in handlers.go. The spec says that the task polls and posts on an interval until
  its cancel signal fires and never ends by itself. The \<^verbatim>\<open>go\<close> statement is modelled
  as recording the started task with its two arguments.
\<close>

definition go_addMonitoringReport :: "string \<Rightarrow> nat \<Rightarrow> runtime \<Rightarrow> runtime" where
  "go_addMonitoringReport channelID stop rt = rt\<lparr>goroutines := goroutines rt @ [(channelID, stop)]\<rparr>"

text \<open>
  What a handler leaves behind: it returns its reply, or it is blocked in a channel
  send, forever on the \<^verbatim>\<open>nil\<close> channel or until a receiver makes room in a full one.
\<close>

datatype 'a outcome = Returns 'a | BlocksForever | WaitsForReceiver

text \<open>
  Functions the handlers call that are given from outside:
  \<^item> \<open>emoji\<close>. Modelled from the spec: the function is defined in another file of the
    plugin; the spec calls its result the state indicator of an alert line.
  \<^item> \<open>Time_String loc sec\<close>: the text of \<^verbatim>\<open>time.Unix(sec, 0).String()\<close> when
    \<^verbatim>\<open>time.Local\<close> is \<open>loc\<close>.
  \<^item> \<open>json_Marshal_string\<close>: \<^verbatim>\<open>json.Marshal\<close> of a string.
\<close>

record deps =
  emoji :: "string \<Rightarrow> string"
  Time_String :: "location \<Rightarrow> int \<Rightarrow> string"
  json_Marshal_string :: "string \<Rightarrow> JsonError + string"

section \<open>Typed settings\<close>

datatype getError = ErrKVGet | ErrUnmarshal

definition getLogsLimit :: "plugin_API \<Rightarrow> getError + int" where
  "getLogsLimit api =
     (case KVGet api logsLimitKey of
        Inl _ \<Rightarrow> Inl ErrKVGet
      | Inr b \<Rightarrow>
          (case json_Unmarshal_int b of
             Inl _ \<Rightarrow> Inl ErrUnmarshal
           | Inr limit \<Rightarrow> Inr limit))"

definition setLogsLimit :: "Plugin \<Rightarrow> string list \<Rightarrow> string \<times> Plugin" where
  "setLogsLimit p parameters =
     (if length parameters \<noteq> 1 then (''You must supply exactly one parameter (integer value).'', p)
      else
        (case strconv_Atoi (parameters ! 0) of
           Inl _ \<Rightarrow> (settingLogsLimitUnsuccessful, p\<lparr>API := LogError (API p) ''Atoi''\<rparr>)
         | Inr i \<Rightarrow>
             if i \<le> 0 then (''Invalid argument - logs limit must be a positive integer.'', p)
             else
               (case json_Marshal_int i of
                  Inl _ \<Rightarrow> (settingLogsLimitUnsuccessful, p\<lparr>API := LogError (API p) ''Marshal''\<rparr>)
                | Inr b \<Rightarrow>
                    (case KVSet (API p) logsLimitKey b of
                       (Some _, api') \<Rightarrow> (settingLogsLimitUnsuccessful, p\<lparr>API := LogError api' ''KVSet''\<rparr>)
                     | (None, api') \<Rightarrow> (''Limit set successfully.'', p\<lparr>API := api'\<rparr>)))))"

text \<open>
  \<^verbatim>\<open>int64\<close> arithmetic wraps around. \<^verbatim>\<open>time.Duration(seconds) * time.Second\<close> is
  the product with \<open>10^9\<close> in \<^verbatim>\<open>int64\<close>.
\<close>

definition wrap64 :: "int \<Rightarrow> int" where
  "wrap64 x = (x + 2 ^ 63) mod 2 ^ 64 - 2 ^ 63"

definition getLogsStartTime :: "plugin_API \<Rightarrow> getError + int" where
  "getLogsStartTime api =
     (case KVGet api logsStartTimeKey of
        Inl _ \<Rightarrow> Inl ErrKVGet
      | Inr b \<Rightarrow>
          (case json_Unmarshal_int b of
             Inl _ \<Rightarrow> Inl ErrUnmarshal
           | Inr seconds \<Rightarrow> Inr (wrap64 (seconds * 1000000000))))"

definition setLogsStartTime :: "Plugin \<Rightarrow> string list \<Rightarrow> string \<times> Plugin" where
  "setLogsStartTime p parameters =
     (if length parameters \<noteq> 1 then (''You must supply exactly one parameter (number of seconds).'', p)
      else
        (case strconv_ParseInt (parameters ! 0) of
           Inl _ \<Rightarrow> (settingLogsStartTimeUnsuccessful, p\<lparr>API := LogError (API p) ''ParseInt''\<rparr>)
         | Inr i \<Rightarrow>
             if i \<le> 0 then (''Invalid argument - start time must be a positive integer.'', p)
             else
               (case json_Marshal_int i of
                  Inl _ \<Rightarrow> (settingLogsStartTimeUnsuccessful, p\<lparr>API := LogError (API p) ''Marshal''\<rparr>)
                | Inr b \<Rightarrow>
                    (case KVSet (API p) logsStartTimeKey b of
                       (Some _, api') \<Rightarrow> (settingLogsStartTimeUnsuccessful, p\<lparr>API := LogError api' ''KVSet''\<rparr>)
                     | (None, api') \<Rightarrow> (''Start time set successfully.'', p\<lparr>API := api'\<rparr>)))))"

definition setReportFrequency :: "Plugin \<Rightarrow> string list \<Rightarrow> string \<times> Plugin" where
  "setReportFrequency p parameters =
     (if length parameters \<noteq> 1 then (''You must supply exactly one parameter (number of minutes).'', p)
      else
        (case strconv_Atoi (parameters ! 0) of
           Inl _ \<Rightarrow> (settingReportFrequencyUnsuccessful, p\<lparr>API := LogError (API p) ''Atoi''\<rparr>)
         | Inr i \<Rightarrow>
             if i \<le> 0 then (''Invalid argument - report frequency must be a positive integer.'', p)
             else
               (case json_Marshal_int i of
                  Inl _ \<Rightarrow> (settingReportFrequencyUnsuccessful, p\<lparr>API := LogError (API p) ''Marshal''\<rparr>)
                | Inr b \<Rightarrow>
                    (case KVSet (API p) reportFrequencyKey b of
                       (Some _, api') \<Rightarrow> (settingReportFrequencyUnsuccessful, p\<lparr>API := LogError api' ''KVSet''\<rparr>)
                     | (None, api') \<Rightarrow> (''Report frequency set successfully.'', p\<lparr>API := api'\<rparr>)))))"

definition setReportChannel :: "deps \<Rightarrow> plugin_API \<Rightarrow> string \<Rightarrow> string \<times> plugin_API" where
  "setReportChannel x api channelID =
     (case json_Marshal_string x channelID of
        Inl _ \<Rightarrow> (settingReportChannelUnsuccessful, LogError api ''Marshal'')
      | Inr b \<Rightarrow>
          (case KVSet api reportChannelKey b of
             (Some _, api') \<Rightarrow> (settingReportChannelUnsuccessful, LogError api' ''KVSet'')
           | (None, api') \<Rightarrow> (''Subscribed to system monitoring report successfully.'', api')))"

definition setChangesChannel :: "deps \<Rightarrow> plugin_API \<Rightarrow> string \<Rightarrow> string \<times> plugin_API" where
  "setChangesChannel x api channelID =
     (case json_Marshal_string x channelID of
        Inl _ \<Rightarrow> (settingChangesChannelUnsuccessful, LogError api ''Marshal'')
      | Inr b \<Rightarrow>
          (case KVSet api changesChannelKey b of
             (Some _, api') \<Rightarrow> (settingChangesChannelUnsuccessful, LogError api' ''KVSet'')
           | (None, api') \<Rightarrow> (''Subscribed to configuration changes successfully.'', api')))"

section \<open>Formatting query results\<close>

text \<open>
  \<^verbatim>\<open>t/1e3\<close> is \<^verbatim>\<open>int64\<close> division, which truncates towards zero (\<open>sdiv\<close>).
  \<^verbatim>\<open>time.Unix(sec, 0).String()\<close> reads \<^verbatim>\<open>time.Local\<close> from the runtime.
\<close>

definition formatNagiosTimestamp :: "deps \<Rightarrow> runtime \<Rightarrow> int \<Rightarrow> string" where
  "formatNagiosTimestamp x rt t = Time_String x (time_Local rt) (t sdiv 1000)"

definition formatHostName :: "string \<Rightarrow> string \<Rightarrow> string" where
  "formatHostName name alt = (if length name = 0 then alt else name)"

definition gettingLogsUnsuccessfulMessage :: "string \<Rightarrow> string" where
  "gettingLogsUnsuccessfulMessage message = gettingLogsUnsuccessful @ '': '' @ message"

definition unknownParameterMessage :: "string \<Rightarrow> string" where
  "unknownParameterMessage parameter = ''Unknown parameter ('' @ parameter @ '').''"

definition formatAlertListEntry :: "deps \<Rightarrow> runtime \<Rightarrow> AlertListEntry \<Rightarrow> string" where
  "formatAlertListEntry x rt e =
     emoji x (AlertListEntry.State e) @ '' ['' @
     formatNagiosTimestamp x rt (AlertListEntry.Timestamp e) @ ''] '' @
     AlertListEntry.ObjectType e @ '': '' @
     formatHostName (AlertListEntry.HostName e) (AlertListEntry.Name e) @ '' | '' @
     AlertListEntry.Description e @ '' | '' @
     AlertListEntry.StateType e @ '' | '' @
     AlertListEntry.State e @ '' | '' @
     AlertListEntry.PluginOutput e"

text \<open>
  The loop over the records with its \<^verbatim>\<open>strings.Builder\<close>: a line feed before every
  record but the first.
\<close>

definition formatAlerts :: "deps \<Rightarrow> runtime \<Rightarrow> AlertList \<Rightarrow> string" where
  "formatAlerts x rt alerts =
     (if TypeText (AlertList.Result alerts) \<noteq> resultTypeTextSuccess
      then gettingLogsUnsuccessfulMessage (TypeText (AlertList.Result alerts))
      else if length (AlertList (AlertList.Data alerts)) = 0 then ''No alerts.''
      else foldl (\<lambda>b (i, v). (if i > 0 then b @ [CHR 0x0A] else b) @ formatAlertListEntry x rt v) []
             (zip [0 ..< length (AlertList (AlertList.Data alerts))] (AlertList (AlertList.Data alerts))))"

definition formatNotificationListEntry :: "deps \<Rightarrow> runtime \<Rightarrow> NotificationListEntry \<Rightarrow> string" where
  "formatNotificationListEntry x rt e =
     ''['' @ formatNagiosTimestamp x rt (NotificationListEntry.Timestamp e) @ ''] '' @
     NotificationListEntry.ObjectType e @ '': '' @
     formatHostName (NotificationListEntry.HostName e) (NotificationListEntry.Name e) @ '' | '' @
     NotificationListEntry.Description e @ '' | '' @
     Contact e @ '' | '' @
     NotificationType e @ '' | '' @
     Method e @ '' | '' @
     Message e"

definition formatNotifications :: "deps \<Rightarrow> runtime \<Rightarrow> NotificationList \<Rightarrow> string" where
  "formatNotifications x rt notifications =
     (if TypeText (NotificationList.Result notifications) \<noteq> resultTypeTextSuccess
      then gettingLogsUnsuccessfulMessage (TypeText (NotificationList.Result notifications))
      else if length (NotificationList (NotificationList.Data notifications)) = 0 then ''No notifications.''
      else foldl (\<lambda>b (i, v). (if i > 0 then b @ [CHR 0x0A] else b) @ formatNotificationListEntry x rt v) []
             (zip [0 ..< length (NotificationList (NotificationList.Data notifications))]
                  (NotificationList (NotificationList.Data notifications))))"

section \<open>get-log\<close>

text \<open>The result is \<^verbatim>\<open>(hostName, serviceDescription, message, ok)\<close>.\<close>

definition getLogsSpecific :: "string list \<Rightarrow> string \<times> string \<times> string \<times> bool" where
  "getLogsSpecific parameters =
     (if length parameters = 0 then ('''', '''', '''', True)
      else if parameters ! 0 = ''host'' then
        (if length parameters < 2 then ('''', '''', ''You must supply host name.'', False)
         else (parameters ! 1, '''', '''', True))
      else if parameters ! 0 = ''service'' then
        (if length parameters < 2 then ('''', '''', ''You must supply service description.'', False)
         else ('''', parameters ! 1, '''', True))
      else ('''', '''', unknownParameterMessage (parameters ! 0), False))"

text \<open>
  \<^verbatim>\<open>now.Add(-d)\<close> on the wall clock: the duration is split into seconds and
  nanoseconds (both truncating), and the nanoseconds are carried into the seconds.
  \<^verbatim>\<open>Unix()\<close> is the seconds part. The seconds of a clock reading are far from the
  bounds of \<^verbatim>\<open>int64\<close>, so their sum with the seconds of a duration is not cut off.
\<close>

definition time_Add :: "int \<times> int \<Rightarrow> int \<Rightarrow> int \<times> int" where
  "time_Add t d =
     (let dsec = d sdiv 1000000000;
          nsec = snd t + d smod 1000000000
      in if nsec \<ge> 1000000000 then (fst t + (dsec + 1), nsec - 1000000000)
         else if nsec < 0 then (fst t + (dsec - 1), nsec + 1000000000)
         else (fst t + dsec, nsec))"

definition time_Unix :: "int \<times> int \<Rightarrow> int" where
  "time_Unix t = fst t"

definition getLogs :: "deps \<Rightarrow> runtime \<Rightarrow> Plugin \<Rightarrow> string list \<Rightarrow> string \<times> Plugin" where
  "getLogs x rt p parameters =
     (if length parameters = 0 then (''You must supply at least one parameter (alerts|notifications).'', p)
      else
        (case getLogsLimit (API p) of
           Inl _ \<Rightarrow> (gettingLogsUnsuccessful, p\<lparr>API := LogError (API p) ''getLogsLimit''\<rparr>)
         | Inr c \<Rightarrow>
             (case getLogsSpecific (drop 1 parameters) of
                (hostName, serviceDescription, message, ok) \<Rightarrow>
                  if \<not> ok then (message, p)
                  else
                    (case getLogsStartTime (API p) of
                       Inl _ \<Rightarrow> (gettingLogsUnsuccessful, p\<lparr>API := LogError (API p) ''getLogsStartTime''\<rparr>)
                     | Inr d \<Rightarrow>
                         let now = time_Now rt;
                             then' = time_Add now (wrap64 (- d))
                         in if parameters ! 0 = ''alerts'' then
                              (case QueryAlerts (client p)
                                      \<lparr>AlertListRequest.Enumerate = True,
                                       AlertListRequest.Count = c,
                                       AlertListRequest.HostName = hostName,
                                       AlertListRequest.ServiceDescription = serviceDescription,
                                       AlertListRequest.StartTime = time_Unix then',
                                       AlertListRequest.EndTime = time_Unix now\<rparr> of
                                 Inl _ \<Rightarrow> (gettingLogsUnsuccessful, p\<lparr>API := LogError (API p) ''Query''\<rparr>)
                               | Inr alerts \<Rightarrow> (formatAlerts x rt alerts, p))
                            else if parameters ! 0 = ''notifications'' then
                              (case QueryNotifications (client p)
                                      \<lparr>NotificationListRequest.Enumerate = True,
                                       NotificationListRequest.Count = c,
                                       NotificationListRequest.HostName = hostName,
                                       NotificationListRequest.ServiceDescription = serviceDescription,
                                       NotificationListRequest.StartTime = time_Unix then',
                                       NotificationListRequest.EndTime = time_Unix now\<rparr> of
                                 Inl _ \<Rightarrow> (gettingLogsUnsuccessful, p\<lparr>API := LogError (API p) ''Query''\<rparr>)
                               | Inr notifications \<Rightarrow> (formatNotifications x rt notifications, p))
                            else (unknownParameterMessage (parameters ! 0), p)))))"

section \<open>subscribe and unsubscribe\<close>

definition subscribe :: "deps \<Rightarrow> runtime \<Rightarrow> Plugin \<Rightarrow> string \<Rightarrow> string list \<Rightarrow> string \<times> Plugin \<times> runtime" where
  "subscribe x rt p channelID parameters =
     (if length parameters \<noteq> 1
      then (''You must supply exactly one parameter (report|configuration-changes).'', p, rt)
      else if parameters ! 0 = ''report'' then
        (case make_chan 1 rt of
           (stop, rt1) \<Rightarrow>
             let rt2 = go_addMonitoringReport channelID stop rt1;
                 p1 = p\<lparr>subscriptionStop := Some stop\<rparr>
             in (case setReportChannel x (API p1) channelID of
                   (msg, api') \<Rightarrow> (msg, p1\<lparr>API := api'\<rparr>, rt2)))
      else if parameters ! 0 = ''configuration-changes'' then
        (case setChangesChannel x (API p) channelID of
           (msg, api') \<Rightarrow> (msg, p\<lparr>API := api'\<rparr>, rt))
      else (unknownParameterMessage (parameters ! 0), p, rt))"

definition unsubscribingUnsuccessful :: string where
  "unsubscribingUnsuccessful = ''Unsubscribing unsuccessful.''"

definition unsubscribe :: "runtime \<Rightarrow> Plugin \<Rightarrow> string list \<Rightarrow> (string \<times> Plugin \<times> runtime) outcome" where
  "unsubscribe rt p parameters =
     (if length parameters \<noteq> 1
      then Returns (''You must supply exactly one parameter (report|configuration-changes).'', p, rt)
      else if parameters ! 0 = ''report'' then
        (case chan_send (subscriptionStop p) True rt of
           SendBlocksForever \<Rightarrow> BlocksForever
         | SendWaits \<Rightarrow> WaitsForReceiver
         | Sent rt' \<Rightarrow>
             (case KVDelete (API p) reportChannelKey of
                (Some _, api') \<Rightarrow> Returns (unsubscribingUnsuccessful, p\<lparr>API := LogError api' ''KVDelete''\<rparr>, rt')
              | (None, api') \<Rightarrow> Returns (''Unsubscribed successfully.'', p\<lparr>API := api'\<rparr>, rt')))
      else if parameters ! 0 = ''configuration-changes'' then
        (case KVDelete (API p) changesChannelKey of
           (Some _, api') \<Rightarrow> Returns (unsubscribingUnsuccessful, p\<lparr>API := LogError api' ''KVDelete''\<rparr>, rt)
         | (None, api') \<Rightarrow> Returns (''Unsubscribed successfully.'', p\<lparr>API := api'\<rparr>, rt))
      else Returns (unknownParameterMessage (parameters ! 0), p, rt))"

section \<open>Example states\<close>

text \<open>
  A store without settings and without faults, a client whose queries fail, a plugin that
  never subscribed, a runtime without channels, and simple stand-ins for the outside
  functions. \<open>plugin1\<close> and \<open>runtime1\<close> are the state after one
  \<^verbatim>\<open>subscribe report\<close> from the channel \<^verbatim>\<open>town-square\<close>.
\<close>

definition api0 :: plugin_API where
  "api0 = \<lparr>kv = Map.empty, kvFails = (\<lambda>_. False), errorLog = []\<rparr>"

definition client0 :: nagios_Client where
  "client0 = \<lparr>QueryAlerts = (\<lambda>_. Inl QueryError), QueryNotifications = (\<lambda>_. Inl QueryError)\<rparr>"

definition plugin0 :: Plugin where
  "plugin0 = \<lparr>API = api0, client = client0, subscriptionStop = None\<rparr>"

definition runtime0 :: runtime where
  "runtime0 = \<lparr>chans = [], goroutines = [], time_Local = (\<lambda>_. (''UTC'', 0)), time_Now = (1700000000, 0)\<rparr>"

definition deps0 :: deps where
  "deps0 = \<lparr>emoji = (\<lambda>s. ''!''),
            Time_String = (\<lambda>loc sec. strconv_Itoa sec @ '' '' @ fst (loc sec)),
            json_Marshal_string = (\<lambda>s. Inr ([CHR 0x22] @ s @ [CHR 0x22]))\<rparr>"

definition plugin1 :: Plugin where
  "plugin1 = plugin0\<lparr>subscriptionStop := Some 0\<rparr>"

definition runtime1 :: runtime where
  "runtime1 = runtime0\<lparr>chans := [\<lparr>capacity = 1, buffer = []\<rparr>], goroutines := [(''town-square'', 0)]\<rparr>"

text \<open>The same plugin on a store that refuses to write the report channel.\<close>

definition plugin1_readonly :: Plugin where
  "plugin1_readonly = plugin1\<lparr>API := api0\<lparr>kvFails := (\<lambda>op. op = OpKVSet ''report-channel'')\<rparr>\<rparr>"

definition alert0 :: AlertListEntry where
  "alert0 = \<lparr>AlertListEntry.Timestamp = 1700000000999,
              AlertListEntry.ObjectType = ''HOST'',
              AlertListEntry.HostName = ''web1'',
              AlertListEntry.Name = ''alt'',
              AlertListEntry.Description = ''ping'',
              AlertListEntry.StateType = ''HARD'',
              AlertListEntry.State = ''DOWN'',
              AlertListEntry.PluginOutput = ''timeout''\<rparr>"

definition notification0 :: NotificationListEntry where
  "notification0 = \<lparr>NotificationListEntry.Timestamp = 1700000000000,
              NotificationListEntry.ObjectType = ''SERVICE'',
              NotificationListEntry.HostName = '''',
              NotificationListEntry.Name = ''db1'',
              NotificationListEntry.Description = ''disk'',
              Contact = ''ops'',
              NotificationType = ''CRITICAL'',
              Method = ''mail'',
              Message = ''full''\<rparr>"

definition alerts_of :: "string \<Rightarrow> AlertListEntry list \<Rightarrow> AlertList" where
  "alerts_of status es = \<lparr>AlertList.Result = \<lparr>TypeText = status\<rparr>, AlertList.Data = \<lparr>AlertList = es\<rparr>\<rparr>"

definition notifications_of :: "string \<Rightarrow> NotificationListEntry list \<Rightarrow> NotificationList" where
  "notifications_of status es =
     \<lparr>NotificationList.Result = \<lparr>TypeText = status\<rparr>, NotificationList.Data = \<lparr>NotificationList = es\<rparr>\<rparr>"

section \<open>Decimal text: printing and parsing agree\<close>

lemma digit_cases: "d < 10 \<Longrightarrow> d \<in> {0, 1, 2, 3, 4, 5, 6, 7, 8, 9 :: nat}"
  by auto

lemma digitVal_digitChar: "d < 10 \<Longrightarrow> digitVal (digitChar d) = d"
  by (drule digit_cases) (auto simp: digitVal_def digitChar_def)

lemma isDigit_digitChar: "d < 10 \<Longrightarrow> isDigit (digitChar d)"
  by (drule digit_cases) (auto simp: isDigit_def digitChar_def)

lemma formatUint_nonempty: "formatUint n \<noteq> []"
  by (subst formatUint.simps) simp

lemma isDigit_formatUint: "list_all isDigit (formatUint n)"
proof (induction n rule: formatUint.induct)
  case (1 n)
  show ?case
  proof (cases "n < 10")
    case True
    then show ?thesis by (subst formatUint.simps) (simp add: isDigit_digitChar)
  next
    case False
    with 1 show ?thesis by (subst formatUint.simps) (simp add: isDigit_digitChar)
  qed
qed

lemma parseDigits_append: "parseDigits (ds @ [c]) = parseDigits ds * 10 + digitVal c"
  by (simp add: parseDigits_def)

lemma parseDigits_formatUint: "parseDigits (formatUint n) = n"
proof (induction n rule: formatUint.induct)
  case (1 n)
  show ?case
  proof (cases "n < 10")
    case True
    then show ?thesis by (subst formatUint.simps) (simp add: parseDigits_def digitVal_digitChar)
  next
    case False
    with 1 show ?thesis
      by (subst formatUint.simps) (simp add: parseDigits_append digitVal_digitChar)
  qed
qed

lemma digitChar_zero: "d < 10 \<Longrightarrow> digitChar d = CHR ''0'' \<Longrightarrow> d = 0"
  using digitVal_digitChar [of d] by (simp add: digitVal_def)

lemma hd_formatUint_nonzero: "n \<noteq> 0 \<Longrightarrow> hd (formatUint n) \<noteq> CHR ''0''"
proof (induction n rule: formatUint.induct)
  case (1 n)
  show ?case
  proof (cases "n < 10")
    case True
    with "1.prems" show ?thesis
      by (subst formatUint.simps) (auto dest: digitChar_zero)
  next
    case False
    then have "n div 10 \<noteq> 0" by simp
    with 1 False have "hd (formatUint (n div 10)) \<noteq> CHR ''0''" by simp
    with False show ?thesis
      by (subst formatUint.simps) (simp add: formatUint_nonempty)
  qed
qed

lemma formatUint_zero: "formatUint 0 = ''0''"
  by (subst formatUint.simps) (simp add: digitChar_def)

lemma formatUint_no_leading_zero: "hd (formatUint n) \<noteq> CHR ''0'' \<or> length (formatUint n) = 1"
  by (cases "n = 0") (simp_all add: formatUint_zero hd_formatUint_nonzero)

lemma isDigit_hd_formatUint: "isDigit (hd (formatUint n))"
  using isDigit_formatUint [of n] formatUint_nonempty [of n]
  by (cases "formatUint n") simp_all

lemma isDigit_last_formatUint: "isDigit (last (formatUint n))"
  using isDigit_formatUint [of n] formatUint_nonempty [of n]
  by (simp add: list_all_iff)

lemma isDigit_not_isSpace: "isDigit c \<Longrightarrow> \<not> isSpace c"
  by (auto simp: isDigit_def isSpace_def)

lemma isDigit_not_sign: "isDigit c \<Longrightarrow> c \<noteq> CHR ''-'' \<and> c \<noteq> CHR ''+'' \<and> c \<noteq> CHR ''n''"
  by (auto simp: isDigit_def)

lemma trimSpace_id:
  assumes "s \<noteq> []" "\<not> isSpace (hd s)" "\<not> isSpace (last s)"
  shows "trimSpace s = s"
proof -
  have front: "dropWhile isSpace s = s" using assms by (cases s) auto
  have rear: "dropWhile isSpace (rev s) = rev s" using assms by (cases s rule: rev_cases) auto
  show ?thesis by (simp add: trimSpace_def front rear)
qed

lemma strconv_Itoa_nonempty: "strconv_Itoa i \<noteq> []"
  by (simp add: strconv_Itoa_def formatUint_nonempty)

lemma ParseInt_Itoa:
  assumes "minInt64 \<le> i" "i \<le> maxInt64"
  shows "strconv_ParseInt (strconv_Itoa i) = Inr i"
proof (cases "i < 0")
  case True
  then show ?thesis using assms
    by (simp add: strconv_ParseInt_def strconv_Itoa_def formatUint_nonempty isDigit_formatUint
        parseDigits_formatUint)
next
  case False
  obtain c cs where f: "formatUint (nat i) = c # cs"
    using formatUint_nonempty [of "nat i"] by (cases "formatUint (nat i)") auto
  have "isDigit c" using isDigit_hd_formatUint [of "nat i"] f by simp
  then have c: "c \<noteq> CHR ''-''" "c \<noteq> CHR ''+''" using isDigit_not_sign by auto
  have "list_all isDigit (c # cs)" "parseDigits (c # cs) = nat i"
    using isDigit_formatUint [of "nat i"] parseDigits_formatUint [of "nat i"] f by simp_all
  then show ?thesis using False assms c f
    by (simp add: strconv_ParseInt_def strconv_Itoa_def)
qed

lemma trimSpace_Itoa: "trimSpace (strconv_Itoa i) = strconv_Itoa i"
proof (rule trimSpace_id)
  show "strconv_Itoa i \<noteq> []" by (rule strconv_Itoa_nonempty)
  show "\<not> isSpace (hd (strconv_Itoa i))"
    using isDigit_hd_formatUint [of "nat i"]
    by (auto simp: strconv_Itoa_def isSpace_def dest: isDigit_not_isSpace)
  show "\<not> isSpace (last (strconv_Itoa i))"
    using isDigit_last_formatUint [of "nat i"] isDigit_last_formatUint [of "nat (- i)"]
    by (auto simp: strconv_Itoa_def formatUint_nonempty dest: isDigit_not_isSpace)
qed

lemma Itoa_not_null: "strconv_Itoa i \<noteq> ''null''"
proof
  assume "strconv_Itoa i = ''null''"
  then have "hd (strconv_Itoa i) = CHR ''n''" by simp
  moreover have "isDigit (hd (formatUint (nat i)))" by (rule isDigit_hd_formatUint)
  ultimately show False
    by (auto simp: strconv_Itoa_def isDigit_def split: if_splits)
qed

lemma validInteger_Itoa: "validInteger (strconv_Itoa i)"
proof (cases "i < 0")
  case True
  then show ?thesis
    using formatUint_no_leading_zero [of "nat (- i)"]
    by (simp add: validInteger_def strconv_Itoa_def formatUint_nonempty isDigit_formatUint)
next
  case False
  obtain c cs where f: "formatUint (nat i) = c # cs"
    using formatUint_nonempty [of "nat i"] by (cases "formatUint (nat i)") auto
  have "isDigit c" using isDigit_hd_formatUint [of "nat i"] f by simp
  then have c: "c \<noteq> CHR ''-''" using isDigit_not_sign by auto
  show ?thesis
    using False c f formatUint_no_leading_zero [of "nat i"] isDigit_formatUint [of "nat i"]
    by (simp add: validInteger_def strconv_Itoa_def)
qed

text \<open>What \<^verbatim>\<open>json.Marshal\<close> writes for an integer in range, \<^verbatim>\<open>json.Unmarshal\<close> reads back.\<close>

lemma Unmarshal_Marshal_int:
  assumes "minInt64 \<le> i" "i \<le> maxInt64"
  shows "json_Unmarshal_int (Some (strconv_Itoa i)) = Inr i"
  using assms
  by (simp add: json_Unmarshal_int_def trimSpace_Itoa Itoa_not_null validInteger_Itoa ParseInt_Itoa)


subsection \<open>Evaluating the parsers on literals\<close>

lemmas eval_Atoi = strconv_Atoi_def strconv_ParseInt_def isDigit_def parseDigits_def digitVal_def
  maxInt64_def minInt64_def

lemmas eval_Itoa = strconv_Itoa_def formatUint.simps digitChar_def



lemma Atoi_5: "strconv_Atoi ''5'' = Inr 5"
  by (simp add: eval_Atoi)

lemma Atoi_abc: "strconv_Atoi ''abc'' = Inl NumError"
  by (simp add: eval_Atoi)

lemma Atoi_m3: "strconv_Atoi ''-3'' = Inr (- 3)"
  by (simp add: eval_Atoi)

lemma Itoa_5: "strconv_Itoa 5 = ''5''"
  by (simp add: eval_Itoa)

lemma Itoa_1700000000: "strconv_Itoa 1700000000 = ''1700000000''"
  by (simp add: eval_Itoa)

section \<open>The subscription handle (C1, C2, C10)\<close>

lemma setReportChannel_cases:
  "setReportChannel x api channelID =
     (case json_Marshal_string x channelID of
        Inl _ \<Rightarrow> (settingReportChannelUnsuccessful, api\<lparr>errorLog := errorLog api @ [''Marshal'']\<rparr>)
      | Inr b \<Rightarrow>
          if kvFails api (OpKVSet reportChannelKey)
          then (settingReportChannelUnsuccessful, api\<lparr>errorLog := errorLog api @ [''KVSet'']\<rparr>)
          else (''Subscribed to system monitoring report successfully.'',
                api\<lparr>kv := (kv api)(reportChannelKey \<mapsto> b)\<rparr>))"
  by (simp add: setReportChannel_def KVSet_def LogError_def split: sum.splits)

lemma setReportChannel_fails:
  "kvFails api (OpKVSet reportChannelKey) \<or> json_Marshal_string x channelID = Inl e \<Longrightarrow>
     fst (setReportChannel x api channelID) = ''Setting system monitoring report channel unsuccessful.'' \<and>
     kv (snd (setReportChannel x api channelID)) = kv api"
  by (auto simp: setReportChannel_cases settingReportChannelUnsuccessful_def split: sum.splits)

text \<open>
  The whole effect of \<^verbatim>\<open>subscribe report\<close>: the channel is made, the task is started
  and the handle is assigned, whatever \<open>setReportChannel\<close> answers afterwards.
\<close>

lemma subscribe_report:
  "subscribe x rt p channelID [''report''] =
     (fst (setReportChannel x (API p) channelID),
      p\<lparr>subscriptionStop := Some (length (chans rt)),
        API := snd (setReportChannel x (API p) channelID)\<rparr>,
      rt\<lparr>chans := chans rt @ [\<lparr>capacity = 1, buffer = []\<rparr>],
         goroutines := goroutines rt @ [(channelID, length (chans rt))]\<rparr>)"
  by (simp add: subscribe_def make_chan_def go_addMonitoringReport_def Let_def split: prod.splits)

text \<open>
  C1. When a subscription is active (the handle holds a channel \<open>old\<close> of the runtime),
  \<^verbatim>\<open>subscribe report\<close> assigns a freshly made channel to the handle and sends nothing:
  every channel that existed before, the previously held one among them, has the buffer
  it had, and every task started before is still among the started tasks, next to the
  new one. The previous task has received no cancel signal.
\<close>

theorem subscribe_report_keeps_previous_task:
  assumes "subscriptionStop p = Some old" "old < length (chans rt)"
    and "subscribe x rt p channelID [''report''] = (msg, p', rt')"
  shows "subscriptionStop p' = Some (length (chans rt)) \<and>
         subscriptionStop p' \<noteq> Some old \<and>
         chans rt' = chans rt @ [\<lparr>capacity = 1, buffer = []\<rparr>] \<and>
         (\<forall>c < length (chans rt). chans rt' ! c = chans rt ! c) \<and>
         buffer (chans rt' ! old) = buffer (chans rt ! old) \<and>
         goroutines rt' = goroutines rt @ [(channelID, length (chans rt))] \<and>
         (\<forall>g \<in> set (goroutines rt). g \<in> set (goroutines rt'))"
  using assms by (auto simp: subscribe_report nth_append)

theorem subscribe_report_keeps_previous_task_witness:
  "subscriptionStop plugin1 = Some 0 \<and> 0 < length (chans runtime1) \<and>
   subscriptionStop (fst (snd (subscribe deps0 runtime1 plugin1 ''off-topic'' [''report'']))) = Some 1 \<and>
   buffer (chans (snd (snd (subscribe deps0 runtime1 plugin1 ''off-topic'' [''report'']))) ! 0) = [] \<and>
   goroutines (snd (snd (subscribe deps0 runtime1 plugin1 ''off-topic'' [''report''])))
     = [(''town-square'', 0), (''off-topic'', 1)]"
  using subscribe_report_keeps_previous_task
    [where p = plugin1 and old = 0 and rt = runtime1 and x = deps0 and channelID = "''off-topic''"
       and msg = "fst (subscribe deps0 runtime1 plugin1 ''off-topic'' [''report''])"
       and p' = "fst (snd (subscribe deps0 runtime1 plugin1 ''off-topic'' [''report'']))"
       and rt' = "snd (snd (subscribe deps0 runtime1 plugin1 ''off-topic'' [''report'']))"]
  by (simp add: plugin1_def plugin0_def runtime1_def runtime0_def)

text \<open>The send of \<^verbatim>\<open>unsubscribe report\<close> is not guarded by a test of the handle.\<close>

lemma unsubscribe_report_nil:
  "subscriptionStop p = None \<Longrightarrow> unsubscribe rt p [''report''] = BlocksForever"
  by (simp add: unsubscribe_def chan_send_def)

text \<open>
  C2. \<^verbatim>\<open>unsubscribe report\<close> on a plugin that never subscribed: the handle is the
  \<^verbatim>\<open>nil\<close> channel, the send is not guarded, and the handler blocks forever in it. It
  returns nothing and does not reach the deletion of the report-channel setting.
\<close>

theorem unsubscribe_report_nil_blocks:
  "unsubscribe runtime0 plugin0 [''report''] = BlocksForever"
  by (rule unsubscribe_report_nil) (simp add: plugin0_def)

text \<open>
  C10. Every \<^verbatim>\<open>subscribe report\<close> makes a new channel with room for one value, starts
  the polling task on it and assigns it to the handle, whatever the persisting of the
  report channel answers afterwards. When the report channel cannot be persisted (the
  store refuses the write, or the channel identifier cannot be encoded), the reply is the
  failure message and the store is as before, yet the task has been started and the
  handle holds the new channel, which differs from the one held before.
\<close>

theorem subscribe_report_persist_failure:
  "subscriptionStop (fst (snd (subscribe x rt p channelID [''report'']))) = Some (length (chans rt)) \<and>
   snd (snd (subscribe x rt p channelID [''report''])) =
     rt\<lparr>chans := chans rt @ [\<lparr>capacity = 1, buffer = []\<rparr>],
        goroutines := goroutines rt @ [(channelID, length (chans rt))]\<rparr> \<and>
   (kvFails (API p) (OpKVSet reportChannelKey) \<or> json_Marshal_string x channelID = Inl e \<longrightarrow>
      fst (subscribe x rt p channelID [''report''])
        = ''Setting system monitoring report channel unsuccessful.'' \<and>
      kv (API (fst (snd (subscribe x rt p channelID [''report''])))) = kv (API p)) \<and>
   ((\<forall>c. subscriptionStop p = Some c \<longrightarrow> c < length (chans rt)) \<longrightarrow>
      subscriptionStop (fst (snd (subscribe x rt p channelID [''report'']))) \<noteq> subscriptionStop p)"
proof (intro conjI impI)
  show "subscriptionStop (fst (snd (subscribe x rt p channelID [''report'']))) = Some (length (chans rt))"
    by (simp add: subscribe_report)
  show "snd (snd (subscribe x rt p channelID [''report''])) =
     rt\<lparr>chans := chans rt @ [\<lparr>capacity = 1, buffer = []\<rparr>],
        goroutines := goroutines rt @ [(channelID, length (chans rt))]\<rparr>"
    by (simp add: subscribe_report)
next
  assume fails: "kvFails (API p) (OpKVSet reportChannelKey) \<or> json_Marshal_string x channelID = Inl e"
  show "fst (subscribe x rt p channelID [''report''])
        = ''Setting system monitoring report channel unsuccessful.''"
    using setReportChannel_fails [OF fails] by (simp add: subscribe_report)
  show "kv (API (fst (snd (subscribe x rt p channelID [''report''])))) = kv (API p)"
    using setReportChannel_fails [OF fails] by (simp add: subscribe_report)
next
  assume wf: "\<forall>c. subscriptionStop p = Some c \<longrightarrow> c < length (chans rt)"
  then have "subscriptionStop p \<noteq> Some (length (chans rt))" by auto
  then show "subscriptionStop (fst (snd (subscribe x rt p channelID [''report'']))) \<noteq> subscriptionStop p"
    by (simp add: subscribe_report)
qed

theorem subscribe_report_persist_failure_witness:
  "kvFails (API plugin1_readonly) (OpKVSet reportChannelKey) \<and>
   fst (subscribe deps0 runtime1 plugin1_readonly ''off-topic'' [''report''])
     = ''Setting system monitoring report channel unsuccessful.'' \<and>
   kv (API (fst (snd (subscribe deps0 runtime1 plugin1_readonly ''off-topic'' [''report''])))) = Map.empty \<and>
   subscriptionStop plugin1_readonly = Some 0 \<and>
   subscriptionStop (fst (snd (subscribe deps0 runtime1 plugin1_readonly ''off-topic'' [''report''])))
     = Some 1 \<and>
   goroutines (snd (snd (subscribe deps0 runtime1 plugin1_readonly ''off-topic'' [''report''])))
     = [(''town-square'', 0), (''off-topic'', 1)]"
  using subscribe_report_persist_failure
    [where p = plugin1_readonly and rt = runtime1 and x = deps0 and channelID = "''off-topic''"]
  by (simp add: plugin1_readonly_def plugin1_def plugin0_def api0_def runtime1_def runtime0_def
      reportChannelKey_def)

section \<open>Settings (C3, C6)\<close>

lemma setLogsLimit_valid:
  assumes "strconv_Atoi s = Inr n" "0 < n"
  shows "setLogsLimit p [s] =
     (if kvFails (API p) (OpKVSet logsLimitKey)
      then (settingLogsLimitUnsuccessful, p\<lparr>API := LogError (API p) ''KVSet''\<rparr>)
      else (''Limit set successfully.'',
            p\<lparr>API := (API p)\<lparr>kv := (kv (API p))(logsLimitKey \<mapsto> strconv_Itoa n)\<rparr>\<rparr>))"
  using assms by (simp add: setLogsLimit_def json_Marshal_int_def KVSet_def)




lemma setLogsLimit_atomic:
  "(if fst (setLogsLimit p ps) = ''Limit set successfully.''
    then \<exists>i. strconv_Atoi (ps ! 0) = Inr i \<and> 0 < i \<and>
             kv (API (snd (setLogsLimit p ps))) = (kv (API p))(logsLimitKey \<mapsto> strconv_Itoa i)
    else kv (API (snd (setLogsLimit p ps))) = kv (API p))"
  by (auto simp: setLogsLimit_def json_Marshal_int_def KVSet_def LogError_def
      settingLogsLimitUnsuccessful_def split: if_splits sum.splits)

lemma setLogsStartTime_atomic:
  "(if fst (setLogsStartTime p ps) = ''Start time set successfully.''
    then \<exists>i. strconv_ParseInt (ps ! 0) = Inr i \<and> 0 < i \<and>
             kv (API (snd (setLogsStartTime p ps))) = (kv (API p))(logsStartTimeKey \<mapsto> strconv_Itoa i)
    else kv (API (snd (setLogsStartTime p ps))) = kv (API p))"
  by (auto simp: setLogsStartTime_def json_Marshal_int_def KVSet_def LogError_def
      settingLogsStartTimeUnsuccessful_def split: if_splits sum.splits)

lemma setReportFrequency_atomic:
  "(if fst (setReportFrequency p ps) = ''Report frequency set successfully.''
    then \<exists>i. strconv_Atoi (ps ! 0) = Inr i \<and> 0 < i \<and>
             kv (API (snd (setReportFrequency p ps))) = (kv (API p))(reportFrequencyKey \<mapsto> strconv_Itoa i)
    else kv (API (snd (setReportFrequency p ps))) = kv (API p))"
  by (auto simp: setReportFrequency_def json_Marshal_int_def KVSet_def LogError_def
      settingReportFrequencyUnsuccessful_def split: if_splits sum.splits)

text \<open>
  C6. Each of \<^verbatim>\<open>set-logs-limit\<close>, \<^verbatim>\<open>set-logs-start-time\<close> and
  \<^verbatim>\<open>set-report-frequency\<close> either answers with its confirmation, and then the store is
  the old one with the decimal text of the parsed, positive value written under the
  setting's key, or answers with anything else (usage, validation or backend message),
  and then the store is the old one. The store is the one of the model: a \<^verbatim>\<open>KVSet\<close>
  that reports an error has written nothing.
\<close>

theorem setters_atomic:
  "(if fst (setLogsLimit p ps) = ''Limit set successfully.''
    then \<exists>i. strconv_Atoi (ps ! 0) = Inr i \<and> 0 < i \<and>
             kv (API (snd (setLogsLimit p ps))) = (kv (API p))(logsLimitKey \<mapsto> strconv_Itoa i)
    else kv (API (snd (setLogsLimit p ps))) = kv (API p)) \<and>
   (if fst (setLogsStartTime p ps) = ''Start time set successfully.''
    then \<exists>i. strconv_ParseInt (ps ! 0) = Inr i \<and> 0 < i \<and>
             kv (API (snd (setLogsStartTime p ps))) = (kv (API p))(logsStartTimeKey \<mapsto> strconv_Itoa i)
    else kv (API (snd (setLogsStartTime p ps))) = kv (API p)) \<and>
   (if fst (setReportFrequency p ps) = ''Report frequency set successfully.''
    then \<exists>i. strconv_Atoi (ps ! 0) = Inr i \<and> 0 < i \<and>
             kv (API (snd (setReportFrequency p ps))) = (kv (API p))(reportFrequencyKey \<mapsto> strconv_Itoa i)
    else kv (API (snd (setReportFrequency p ps))) = kv (API p))"
  using setLogsLimit_atomic [of p ps] setLogsStartTime_atomic [of p ps]
    setReportFrequency_atomic [of p ps]
  by (intro conjI)

theorem setters_atomic_witness:
  "kv (API (snd (setLogsLimit plugin0 [''5'']))) = (kv (API plugin0))(''logs-limit'' \<mapsto> ''5'') \<and>
   kv (API (snd (setLogsStartTime plugin0 [''5'']))) = (kv (API plugin0))(''logs-start-time'' \<mapsto> ''5'') \<and>
   kv (API (snd (setReportFrequency plugin0 [''5'']))) = (kv (API plugin0))(''report-frequency'' \<mapsto> ''5'') \<and>
   kv (API (snd (setLogsLimit plugin0 [''abc'']))) = kv (API plugin0) \<and>
   kv (API (snd (setLogsStartTime plugin0 [''-3'']))) = kv (API plugin0) \<and>
   kv (API (snd (setReportFrequency plugin0 []))) = kv (API plugin0)"
  using setters_atomic [of plugin0 "[''5'']"] setters_atomic [of plugin0 "[''abc'']"]
    setters_atomic [of plugin0 "[''-3'']"] setters_atomic [of plugin0 "[]"]
  by (simp add: setLogsLimit_def setLogsStartTime_def setReportFrequency_def Atoi_5 Atoi_abc
      Atoi_m3 Itoa_5 strconv_Atoi_def [symmetric] json_Marshal_int_def KVSet_def LogError_def plugin0_def
      api0_def logsLimitKey_def logsStartTimeKey_def reportFrequencyKey_def)

section \<open>Formatting (C4, C7, C8)\<close>

text \<open>
  C4. A result whose status text is not "Success" is formatted as
  "Getting logs unsuccessful: " followed by that text, whatever records it carries; a
  result with status "Success" and no records is formatted as "No alerts." or
  "No notifications.".
\<close>

theorem format_status_and_empty:
  "(TypeText (AlertList.Result alerts) \<noteq> ''Success'' \<longrightarrow>
      formatAlerts x rt alerts = ''Getting logs unsuccessful: '' @ TypeText (AlertList.Result alerts)) \<and>
   (TypeText (NotificationList.Result notifications) \<noteq> ''Success'' \<longrightarrow>
      formatNotifications x rt notifications =
        ''Getting logs unsuccessful: '' @ TypeText (NotificationList.Result notifications)) \<and>
   (TypeText (AlertList.Result alerts) = ''Success'' \<and> AlertList (AlertList.Data alerts) = [] \<longrightarrow>
      formatAlerts x rt alerts = ''No alerts.'') \<and>
   (TypeText (NotificationList.Result notifications) = ''Success'' \<and>
      NotificationList (NotificationList.Data notifications) = [] \<longrightarrow>
      formatNotifications x rt notifications = ''No notifications.'')"
  by (simp add: formatAlerts_def formatNotifications_def resultTypeTextSuccess_def
      gettingLogsUnsuccessfulMessage_def gettingLogsUnsuccessful_def)

theorem format_status_and_empty_witness:
  "formatAlerts deps0 runtime0 (alerts_of ''Failure'' [alert0]) = ''Getting logs unsuccessful: Failure'' \<and>
   formatNotifications deps0 runtime0 (notifications_of ''Failure'' [notification0])
     = ''Getting logs unsuccessful: Failure'' \<and>
   formatAlerts deps0 runtime0 (alerts_of ''Success'' []) = ''No alerts.'' \<and>
   formatNotifications deps0 runtime0 (notifications_of ''Success'' []) = ''No notifications.''"
  using format_status_and_empty
      [of "alerts_of ''Failure'' [alert0]" deps0 runtime0 "notifications_of ''Failure'' [notification0]"]
    format_status_and_empty
      [of "alerts_of ''Success'' []" deps0 runtime0 "notifications_of ''Success'' []"]
  by (simp add: alerts_of_def notifications_of_def)

lemma formatNagiosTimestamp_zone:
  "time_Local rt1 = time_Local rt2 \<Longrightarrow> formatNagiosTimestamp x rt1 = formatNagiosTimestamp x rt2"
  by (intro ext) (simp add: formatNagiosTimestamp_def)

text \<open>
  C7. The formatters read nothing of the process but its time zone: in two runtimes with
  the same \<^verbatim>\<open>time.Local\<close>, whatever their wall clocks, channels and tasks, the same
  query result is formatted to the same string.
\<close>

theorem format_depends_on_zone_only:
  assumes "time_Local rt1 = time_Local rt2"
  shows "formatAlerts x rt1 alerts = formatAlerts x rt2 alerts \<and>
         formatNotifications x rt1 notifications = formatNotifications x rt2 notifications"
proof -
  have "formatAlertListEntry x rt1 = formatAlertListEntry x rt2"
    using formatNagiosTimestamp_zone [OF assms] by (simp add: formatAlertListEntry_def fun_eq_iff)
  moreover have "formatNotificationListEntry x rt1 = formatNotificationListEntry x rt2"
    using formatNagiosTimestamp_zone [OF assms] by (simp add: formatNotificationListEntry_def fun_eq_iff)
  ultimately show ?thesis
    by (simp add: formatAlerts_def formatNotifications_def)
qed

theorem format_depends_on_zone_only_witness:
  "time_Local runtime0 = time_Local runtime1 \<and> time_Now runtime0 \<noteq> time_Now (runtime1\<lparr>time_Now := (5, 0)\<rparr>) \<and>
   formatAlerts deps0 runtime0 (alerts_of ''Success'' [alert0, alert0])
     = formatAlerts deps0 (runtime1\<lparr>time_Now := (5, 0)\<rparr>) (alerts_of ''Success'' [alert0, alert0]) \<and>
   formatNotifications deps0 runtime0 (notifications_of ''Success'' [notification0])
     = formatNotifications deps0 (runtime1\<lparr>time_Now := (5, 0)\<rparr>) (notifications_of ''Success'' [notification0])"
  using format_depends_on_zone_only
    [of runtime0 "runtime1\<lparr>time_Now := (5, 0)\<rparr>" deps0 "alerts_of ''Success'' [alert0, alert0]"
        "notifications_of ''Success'' [notification0]"]
  by (simp add: runtime1_def runtime0_def)

lemma sdiv_1000: "(t::int) sdiv 1000 = (if 0 \<le> t then t div 1000 else - ((- t) div 1000))"
  by (simp add: signed_divide_int_def sgn_if)

text \<open>
  C8. A timestamp \<open>t\<close> in milliseconds is rendered as the standard text of the Unix
  second \<open>t / 1000\<close>, the division being the integer division of Go: the whole seconds
  of \<open>t\<close> for \<open>t \<ge> 0\<close> (and rounding towards zero for a negative \<open>t\<close>). The
  timestamp 1700000000000 is rendered as the Unix second 1700000000 is.
\<close>

theorem formatNagiosTimestamp_seconds:
  "formatNagiosTimestamp x rt t =
     Time_String x (time_Local rt) (if 0 \<le> t then t div 1000 else - ((- t) div 1000)) \<and>
   (0 \<le> t \<longrightarrow> (t sdiv 1000) * 1000 \<le> t \<and> t < (t sdiv 1000) * 1000 + 1000) \<and>
   formatNagiosTimestamp x rt 1700000000000 = Time_String x (time_Local rt) 1700000000"
proof -
  have "0 \<le> t \<longrightarrow> (t sdiv 1000) * 1000 \<le> t \<and> t < (t sdiv 1000) * 1000 + 1000"
    unfolding sdiv_1000 by presburger
  then show ?thesis
    by (simp add: formatNagiosTimestamp_def sdiv_1000)
qed

theorem formatNagiosTimestamp_seconds_witness:
  "formatNagiosTimestamp deps0 runtime0 1700000000999 = ''1700000000 UTC'' \<and>
   (1700000000999::int) sdiv 1000 * 1000 \<le> 1700000000999 \<and>
   formatNagiosTimestamp deps0 runtime0 1700000000000 = ''1700000000 UTC''"
  using formatNagiosTimestamp_seconds [of deps0 runtime0 1700000000999]
  by (simp add: deps0_def runtime0_def Itoa_1700000000)

section \<open>get-log (C5, C9)\<close>

text \<open>
  C5. The filter parameters of \<^verbatim>\<open>get-log\<close>: "host" alone and "service" alone give
  their messages, any other first parameter (such as "bogus") gives
  "Unknown parameter (...)."; no parameter succeeds without filter; "host" followed by
  \<open>h\<close> sets the host filter to \<open>h\<close>, "service" followed by \<open>s\<close> sets the service
  filter to \<open>s\<close>; in every result at least one of the two filters is empty.
\<close>

theorem getLogsSpecific_cases:
  "getLogsSpecific [''host''] = ('''', '''', ''You must supply host name.'', False) \<and>
   getLogsSpecific [''service''] = ('''', '''', ''You must supply service description.'', False) \<and>
   getLogsSpecific [''bogus''] = ('''', '''', ''Unknown parameter (bogus).'', False) \<and>
   (q \<noteq> ''host'' \<and> q \<noteq> ''service'' \<longrightarrow>
      getLogsSpecific (q # rest) = ('''', '''', ''Unknown parameter ('' @ q @ '').'', False)) \<and>
   getLogsSpecific [] = ('''', '''', '''', True) \<and>
   getLogsSpecific (''host'' # h # rest) = (h, '''', '''', True) \<and>
   getLogsSpecific (''service'' # s # rest) = ('''', s, '''', True) \<and>
   (fst (getLogsSpecific parameters) = '''' \<or> fst (snd (getLogsSpecific parameters)) = '''')"
  by (simp add: getLogsSpecific_def unknownParameterMessage_def)

theorem getLogsSpecific_cases_witness:
  "getLogsSpecific [''hosts'', ''web1''] = ('''', '''', ''Unknown parameter (hosts).'', False) \<and>
   getLogsSpecific [''host'', ''web1''] = (''web1'', '''', '''', True) \<and>
   getLogsSpecific [''service'', ''disk'', ''extra''] = ('''', ''disk'', '''', True)"
  using getLogsSpecific_cases [where q = "''hosts''" and rest = "[''web1'']"]
    getLogsSpecific_cases [where h = "''web1''" and rest = "[]"]
    getLogsSpecific_cases [where s = "''disk''" and rest = "[''extra'']"]
  by simp

text \<open>
  C9. With at least one parameter, \<^verbatim>\<open>get-log\<close> reads the logs limit first: when that
  read fails (the store reports an error, or the stored bytes do not decode, or the key
  is missing), the answer is "Getting logs unsuccessful" and the failure is logged,
  whatever the filter parameters are; the message for malformed filter parameters is
  returned only when the limit was read.
\<close>

theorem getLogs_reads_limit_first:
  "(parameters \<noteq> [] \<and> getLogsLimit (API p) = Inl e \<longrightarrow>
      getLogs x rt p parameters =
        (''Getting logs unsuccessful'', p\<lparr>API := LogError (API p) ''getLogsLimit''\<rparr>)) \<and>
   (parameters \<noteq> [] \<and> getLogsLimit (API p) = Inr c \<and>
      getLogsSpecific (drop 1 parameters) = (h, s, message, False) \<longrightarrow>
      getLogs x rt p parameters = (message, p)) \<and>
   (kv (API p) logsLimitKey = None \<longrightarrow> (\<exists>e'. getLogsLimit (API p) = Inl e'))"
  by (auto simp: getLogs_def gettingLogsUnsuccessful_def getLogsLimit_def KVGet_def
      json_Unmarshal_int_def)

theorem getLogs_reads_limit_first_witness:
  "getLogsLimit (API plugin0) = Inl ErrUnmarshal \<and>
   getLogsSpecific (drop 1 [''alerts'', ''host'']) = ('''', '''', ''You must supply host name.'', False) \<and>
   fst (getLogs deps0 runtime0 plugin0 [''alerts'', ''host'']) = ''Getting logs unsuccessful'' \<and>
   fst (getLogs deps0 runtime0 (snd (setLogsLimit plugin0 [''5''])) [''alerts'', ''host''])
     = ''You must supply host name.''"
  using getLogs_reads_limit_first
      [where parameters = "[''alerts'', ''host'']" and p = plugin0 and e = ErrUnmarshal
         and x = deps0 and rt = runtime0]
    getLogs_reads_limit_first
      [where parameters = "[''alerts'', ''host'']" and p = "snd (setLogsLimit plugin0 [''5''])"
         and x = deps0 and rt = runtime0 and c = 5 and h = "''''" and s = "''''"
         and message = "''You must supply host name.''"]
    setLogsLimit_valid [of "''5''" 5 plugin0] Unmarshal_Marshal_int [of 5]
  by (simp add: getLogsLimit_def KVGet_def json_Unmarshal_int_def plugin0_def api0_def
      getLogsSpecific_def Atoi_5 minInt64_def maxInt64_def)

end
